theory Spec2Isabelle
  imports
    Complex_Main
    "HOL-Library.Char_ord"
    "HOL-Library.List_Lexorder"
    "HOL-Library.Sublist"
begin

section \<open>Fundamentals extraction (gather\_fundamentals.py)\<close>

subsection \<open>Data model\<close>

text \<open>
  One raw XBRL record of the facts provider, as the extraction loop reads it with
  \<^verbatim>\<open>entry.get(key, default)\<close>: an absent \<^verbatim>\<open>form\<close>, \<^verbatim>\<open>end\<close>, \<^verbatim>\<open>filed\<close> or \<^verbatim>\<open>fp\<close>
  reads as the empty string, an absent \<^verbatim>\<open>val\<close> or \<^verbatim>\<open>fy\<close> as \<^verbatim>\<open>None\<close>. Numbers of the
  JSON payload are rationals here; floating-point rounding is not part of the model.
\<close>

record entry =
  e_form :: string
  e_end :: string
  e_val :: "rat option"
  e_filed :: string
  e_fy :: "int option"
  e_fp :: string

text \<open>
  The dictionary that \<^verbatim>\<open>_extract_concept_data\<close> appends to \<^verbatim>\<open>results\<close>; the field
  \<^verbatim>\<open>value\<close> of the source is called \<open>val\<close>.
\<close>

record observation =
  val :: "rat option"
  end_date :: string
  form :: string
  filed :: string
  fiscal_year :: "int option"
  fiscal_period :: string

text \<open>
  \<^verbatim>\<open>concept.get("units", {})\<close> maps a unit kind to its list of records, and
  \<^verbatim>\<open>facts.get("facts", {}).get("us-gaap", {})\<close> maps a concept name to its units.
  A missing level reads as the empty dictionary.
\<close>

type_synonym units = "string \<rightharpoonup> entry list"
type_synonym us_gaap = "string \<rightharpoonup> units"

subsection \<open>Python string helpers\<close>

text \<open>\<^verbatim>\<open>s.replace("/A", "")\<close>: every occurrence, scanned from the left.\<close>

fun replace_A :: "string \<Rightarrow> string" where
  "replace_A [] = []"
| "replace_A [c] = [c]"
| "replace_A (c # d # cs) =
     (if c = CHR ''/'' \<and> d = CHR ''A'' then replace_A cs else c # replace_A (d # cs))"

text \<open>
  \<^verbatim>\<open>int(s)\<close> on an ASCII string: surrounding white space is dropped, one sign is
  allowed, and the digits may be separated by single underscores. A \<^verbatim>\<open>ValueError\<close>
  is the value \<open>None\<close>.
\<close>

definition is_space :: "char \<Rightarrow> bool" where
  "is_space c = (c \<in> set [CHR '' '', CHR 0x09, CHR 0x0A, CHR 0x0B, CHR 0x0C, CHR 0x0D])"

definition is_digit :: "char \<Rightarrow> bool" where
  "is_digit c = (CHR ''0'' \<le> c \<and> c \<le> CHR ''9'')"

definition digit_val :: "char \<Rightarrow> nat" where
  "digit_val c = of_char c - 48"

definition strip :: "string \<Rightarrow> string" where
  "strip s = rev (dropWhile is_space (rev (dropWhile is_space s)))"

fun body_ok :: "string \<Rightarrow> bool" where
  "body_ok [] = False"
| "body_ok [c] = is_digit c"
| "body_ok (c # d # cs) =
     (is_digit c \<and> (if d = CHR ''_'' then body_ok cs else body_ok (d # cs)))"

definition digits_nat :: "string \<Rightarrow> nat" where
  "digits_nat s = foldl (\<lambda>acc c. 10 * acc + digit_val c) 0 (filter is_digit s)"

definition py_int :: "string \<Rightarrow> int option" where
  "py_int s =
     (let t = strip s;
          neg = (t \<noteq> [] \<and> hd t = CHR ''-'');
          b = (if t \<noteq> [] \<and> (hd t = CHR ''-'' \<or> hd t = CHR ''+'') then tl t else t)
      in if body_ok b
         then Some (if neg then - int (digits_nat b) else int (digits_nat b))
         else None)"

subsection \<open>Temporal Extractor and Concept Resolver\<close>

definition FORMS :: "string list" where
  "FORMS = [''10-K'', ''10-Q'', ''10-K/A'', ''10-Q/A'']"

definition UNIT_TYPES :: "string list" where
  "UNIT_TYPES = [''USD'', ''USD/shares'', ''shares'', ''pure'']"

definition mk_result :: "entry \<Rightarrow> observation" where
  "mk_result e =
     \<lparr>val = e_val e, end_date = e_end e, form = e_form e, filed = e_filed e,
      fiscal_year = e_fy e, fiscal_period = e_fp e\<rparr>"

text \<open>
  The inner \<^verbatim>\<open>for entry in entries\<close> loop: each \<^verbatim>\<open>continue\<close> drops the record,
  the last branch appends it.
\<close>

fun filter_entries :: "int \<Rightarrow> entry list \<Rightarrow> observation list" where
  "filter_entries cutoff_year [] = []"
| "filter_entries cutoff_year (e # es) =
     (if e_form e \<notin> set FORMS then filter_entries cutoff_year es
      else if e_end e = [] then filter_entries cutoff_year es
      else (case py_int (take 4 (e_end e)) of
              None \<Rightarrow> filter_entries cutoff_year es
            | Some end_year \<Rightarrow>
                if end_year < cutoff_year then filter_entries cutoff_year es
                else mk_result e # filter_entries cutoff_year es))"

definition dedup_key :: "observation \<Rightarrow> string \<times> string" where
  "dedup_key r = (end_date r, replace_A (form r))"

text \<open>
  The \<^verbatim>\<open>for r in results\<close> loop with its \<^verbatim>\<open>seen\<close> set: a record is appended only
  when its key has not been seen before.
\<close>

fun dedup :: "(string \<times> string) set \<Rightarrow> observation list \<Rightarrow> observation list" where
  "dedup seen [] = []"
| "dedup seen (r # rs) =
     (if dedup_key r \<notin> seen then r # dedup (insert (dedup_key r) seen) rs
      else dedup seen rs)"

text \<open>
  \<^verbatim>\<open>results.sort(key=...)\<close> is a stable sort on the \<^verbatim>\<open>end_date\<close> strings, compared
  character by character; \<open>sort_key\<close> is the stable insertion sort of the library.
\<close>

definition sort_dedup :: "observation list \<Rightarrow> observation list" where
  "sort_dedup results = dedup {} (sort_key end_date results)"

definition get_entries :: "units \<Rightarrow> string \<Rightarrow> entry list" where
  "get_entries us unit_type = (case us unit_type of None \<Rightarrow> [] | Some es \<Rightarrow> es)"

definition get_units :: "us_gaap \<Rightarrow> string \<Rightarrow> units" where
  "get_units g concept_name = (case g concept_name of None \<Rightarrow> Map.empty | Some us \<Rightarrow> us)"

text \<open>
  The loop over the unit kinds of one concept: \<open>Some\<close> is the \<^verbatim>\<open>return deduped\<close>,
  \<open>None\<close> is falling out of the loop to the next concept name.
\<close>

fun try_units :: "int \<Rightarrow> units \<Rightarrow> string list \<Rightarrow> observation list option" where
  "try_units cutoff_year us [] = None"
| "try_units cutoff_year us (unit_type # rest) =
     (let entries = get_entries us unit_type
      in if entries = [] then try_units cutoff_year us rest
         else (let results = filter_entries cutoff_year entries
               in if results \<noteq> [] then Some (sort_dedup results)
                  else try_units cutoff_year us rest))"

fun try_concepts :: "int \<Rightarrow> us_gaap \<Rightarrow> string list \<Rightarrow> observation list" where
  "try_concepts cutoff_year g [] = []"
| "try_concepts cutoff_year g (concept_name # rest) =
     (case try_units cutoff_year (get_units g concept_name) UNIT_TYPES of
        Some deduped \<Rightarrow> deduped
      | None \<Rightarrow> try_concepts cutoff_year g rest)"

text \<open>
  \<^verbatim>\<open>_extract_concept_data(facts, concept_names, years)\<close>; \<open>now_year\<close> is
  \<^verbatim>\<open>datetime.now().year\<close>.
\<close>

definition extract_concept_data :: "int \<Rightarrow> us_gaap \<Rightarrow> string list \<Rightarrow> int \<Rightarrow> observation list" where
  "extract_concept_data now_year g concept_names years =
     try_concepts (now_year - years) g concept_names"

subsection \<open>Derivation Engine: latest values and ratio guards\<close>

text \<open>
  \<^verbatim>\<open>_get_latest_value(data_points, form_filter="10-K")\<close>. The source returns
  \<^verbatim>\<open>filtered[-1]\<close> and \<^verbatim>\<open>data_points[-1]\<close> only for non-empty lists.
\<close>

definition get_latest_value :: "observation list \<Rightarrow> string \<Rightarrow> observation option" where
  "get_latest_value data_points form_filter =
     (if data_points = [] then None
      else (let filtered = filter (\<lambda>d. replace_A (form d) = form_filter) data_points
            in if filtered \<noteq> [] then Some (last filtered) else Some (last data_points)))"

text \<open>
  One statement category of the metrics document, and \<^verbatim>\<open>d.get(metric, [])\<close> on it.
\<close>

type_synonym category = "string \<rightharpoonup> observation list"

definition get_metric :: "category \<Rightarrow> string \<Rightarrow> observation list" where
  "get_metric d metric = (case d metric of None \<Rightarrow> [] | Some xs \<Rightarrow> xs)"

datatype py_error = TypeError

text \<open>
  Truth value of a \<^verbatim>\<open>value\<close> field in a condition (\<^verbatim>\<open>None\<close> and zero are false)
  and \<^verbatim>\<open>float(v)\<close>, which raises \<^verbatim>\<open>TypeError\<close> on \<^verbatim>\<open>None\<close>.
\<close>

definition truthy :: "rat option \<Rightarrow> bool" where
  "truthy v = (case v of None \<Rightarrow> False | Some x \<Rightarrow> x \<noteq> 0)"

definition py_float :: "rat option \<Rightarrow> py_error + rat" where
  "py_float v = (case v of None \<Rightarrow> Inl TypeError | Some x \<Rightarrow> Inr x)"

definition bind_err :: "'e + 'a \<Rightarrow> ('a \<Rightarrow> 'e + 'b) \<Rightarrow> 'e + 'b" where
  "bind_err m f = (case m of Inl e \<Rightarrow> Inl e | Inr x \<Rightarrow> f x)"

text \<open>
  A derived figure is its label and its number; the rendering of the number
  (\<^verbatim>\<open>:.1f\<close>, \<^verbatim>\<open>:.2f\<close>, \<^verbatim>\<open>_format_number\<close>) is left out.

  One margin of the \<^verbatim>\<open>margins\<close> list: the three blocks of the source differ only
  in the metric they read and in the label.
\<close>

definition margin_of :: "string \<Rightarrow> observation list \<Rightarrow> rat \<Rightarrow> py_error + (string \<times> rat) list" where
  "margin_of label data rev_val =
     (case get_latest_value data ''10-K'' of
        None \<Rightarrow> Inr []
      | Some latest \<Rightarrow>
          if truthy (val latest)
          then bind_err (py_float (val latest)) (\<lambda>x. Inr [(label, x / rev_val * 100)])
          else Inr [])"

definition margins :: "category \<Rightarrow> py_error + (string \<times> rat) list" where
  "margins income =
     (let rev_data = get_metric income ''revenue'';
          gp_data = get_metric income ''gross_profit'';
          ni_data = get_metric income ''net_income'';
          oi_data = get_metric income ''operating_income''
      in case get_latest_value rev_data ''10-K'' of
           None \<Rightarrow> Inr []
         | Some rev_latest \<Rightarrow>
             if truthy (val rev_latest)
             then bind_err (py_float (val rev_latest)) (\<lambda>rev_val.
                    if rev_val > 0
                    then bind_err (margin_of ''Gross'' gp_data rev_val) (\<lambda>g.
                         bind_err (margin_of ''Operating'' oi_data rev_val) (\<lambda>opm.
                         bind_err (margin_of ''Net'' ni_data rev_val) (\<lambda>n.
                         Inr (g @ opm @ n))))
                    else Inr [])
             else Inr [])"

text \<open>The \<^verbatim>\<open>ratios\<close> list of the balance-sheet section, statement by statement.\<close>

definition de_ratio :: "category \<Rightarrow> py_error + (string \<times> rat) list" where
  "de_ratio balance =
     (case (get_latest_value (get_metric balance ''stockholders_equity'') ''10-K'',
            get_latest_value (get_metric balance ''total_liabilities'') ''10-K'') of
        (Some equity, Some liabilities) \<Rightarrow>
          if truthy (val equity)
          then bind_err (py_float (val equity)) (\<lambda>e.
                 if e \<noteq> 0
                 then bind_err (py_float (val liabilities)) (\<lambda>l.
                      bind_err (py_float (val equity)) (\<lambda>e'. Inr [(''D/E'', l / e')]))
                 else Inr [])
          else Inr []
      | _ \<Rightarrow> Inr [])"

definition current_ratio :: "category \<Rightarrow> py_error + (string \<times> rat) list" where
  "current_ratio balance =
     (case (get_latest_value (get_metric balance ''current_assets'') ''10-K'',
            get_latest_value (get_metric balance ''current_liabilities'') ''10-K'') of
        (Some curr_assets, Some curr_liab) \<Rightarrow>
          if truthy (val curr_liab)
          then bind_err (py_float (val curr_liab)) (\<lambda>d.
                 if d \<noteq> 0
                 then bind_err (py_float (val curr_assets)) (\<lambda>a.
                      bind_err (py_float (val curr_liab)) (\<lambda>d'. Inr [(''Current'', a / d')]))
                 else Inr [])
          else Inr []
      | _ \<Rightarrow> Inr [])"

definition net_debt :: "category \<Rightarrow> py_error + (string \<times> rat) list" where
  "net_debt balance =
     (case (get_latest_value (get_metric balance ''cash'') ''10-K'',
            get_latest_value (get_metric balance ''long_term_debt'') ''10-K'') of
        (Some cash, Some lt_debt) \<Rightarrow>
          if truthy (val lt_debt)
          then bind_err (py_float (val lt_debt)) (\<lambda>d.
               bind_err (py_float (val cash)) (\<lambda>c. Inr [(''Net Debt'', d - c)]))
          else Inr []
      | _ \<Rightarrow> Inr [])"

definition key_ratios :: "category \<Rightarrow> py_error + (string \<times> rat) list" where
  "key_ratios balance =
     bind_err (de_ratio balance) (\<lambda>a.
     bind_err (current_ratio balance) (\<lambda>b.
     bind_err (net_debt balance) (\<lambda>c. Inr (a @ b @ c))))"

definition free_cash_flow :: "category \<Rightarrow> py_error + (string \<times> rat) list" where
  "free_cash_flow cash_flow =
     (case (get_latest_value (get_metric cash_flow ''operating_cash_flow'') ''10-K'',
            get_latest_value (get_metric cash_flow ''capex'') ''10-K'') of
        (Some ocf, Some capex) \<Rightarrow>
          if val ocf \<noteq> None \<and> val capex \<noteq> None
          then bind_err (py_float (val ocf)) (\<lambda>x.
               bind_err (py_float (val capex)) (\<lambda>y. Inr [(''Free Cash Flow'', x - \<bar>y\<bar>)]))
          else Inr []
      | _ \<Rightarrow> Inr [])"

section \<open>Gather orchestrator (gather.py)\<close>

subsection \<open>Registry, results and the outside world\<close>

text \<open>The dictionary \<^verbatim>\<open>SOURCE_REGISTRY\<close>: source name, module name, function name.\<close>

definition SOURCE_REGISTRY :: "(string \<times> string \<times> string) list" where
  "SOURCE_REGISTRY =
     [(''web'', ''gather_web'', ''gather_web''),
      (''fundamentals'', ''gather_fundamentals'', ''gather_fundamentals''),
      (''social'', ''gather_social'', ''gather_social''),
      (''technicals'', ''gather_technicals'', ''gather_technicals'')]"

definition AGENT_SOURCES :: "(string \<times> string list) list" where
  "AGENT_SOURCES =
     [(''nova'', [''web'', ''fundamentals'']),
      (''luna'', [''social'']),
      (''ace'', [''technicals'']),
      (''max'', [])]"

text \<open>
  What \<^verbatim>\<open>run_source\<close> reads from the dictionary a gather function returns; a missing
  \<^verbatim>\<open>markdown\<close> reads as the empty string and a missing count as 0.
\<close>

record fetched =
  f_markdown :: string
  f_article_count :: int
  f_filing_count :: int
  f_metric_count :: int
  f_post_count :: int
  f_signal_count :: int

record gather_result =
  gr_source :: string
  gr_success :: bool
  gr_markdown :: string
  gr_metric_count :: int
  gr_error :: "string option"

record store_result =
  sr_success :: bool
  sr_key :: string
  sr_message :: string

record reindex_result =
  rx_success :: bool
  rx_message :: string

text \<open>
  How a \<^verbatim>\<open>try\<close> block around an external capability ends: it returns, it raises
  \<^verbatim>\<open>ImportError\<close>, or it raises another exception; the string is \<^verbatim>\<open>str(e)\<close>.
  For the storage sink the block is the \<^verbatim>\<open>from store import upload_to_spaces\<close>
  line together with the call, so an import that fails is one way that attempt ends.
  For the reindex sink the import is kept apart from the call, see \<open>env\<close> below.
\<close>

datatype 'a outcome = Returned 'a | RaisedImportError string | Raised string

text \<open>
  External calls in the order they are made. \<open>CallSource s\<close> is the import and call of
  the gather function of source \<open>s\<close>, \<open>Sleep d\<close> is \<^verbatim>\<open>time.sleep(d)\<close>, \<open>CallStore s\<close> is
  the attempt on the storage sink \<^verbatim>\<open>upload_to_spaces\<close> for source \<open>s\<close> (its import
  line and the call), \<open>CallReindex\<close> is the call of the reindex sink
  \<^verbatim>\<open>trigger_kb_reindex\<close> itself: it is recorded only when the function was imported
  and called.
\<close>

datatype event = CallSource string | Sleep rat | CallStore string | CallReindex

record 'w state =
  world :: 'w
  trace :: "event list"

text \<open>
  The collaborators, each a function of the state of the outside world \<open>'w\<close>:
  \<open>gather_func module func ticker company_name theme directive\<close>,
  \<open>upload_to_spaces markdown_content ticker source timestamp\<close> and
  \<open>trigger_kb_reindex\<close>. The last field is \<open>None\<close> when
  \<^verbatim>\<open>from store import trigger_kb_reindex\<close> raises \<^verbatim>\<open>ImportError\<close>: then there is no
  function to call.
\<close>

record 'w env =
  gather_func :: "string \<Rightarrow> string \<Rightarrow> string \<Rightarrow> string \<Rightarrow> string option \<Rightarrow> string option
                  \<Rightarrow> 'w \<Rightarrow> fetched outcome \<times> 'w"
  upload_to_spaces :: "string \<Rightarrow> string \<Rightarrow> string \<Rightarrow> string \<Rightarrow> 'w \<Rightarrow> store_result outcome \<times> 'w"
  trigger_kb_reindex :: "('w \<Rightarrow> reindex_result outcome \<times> 'w) option"

definition emit :: "event \<Rightarrow> 'w \<Rightarrow> 'w state \<Rightarrow> 'w state" where
  "emit ev w st = \<lparr>world = w, trace = trace st @ [ev]\<rparr>"

subsection \<open>Decimal rendering and joining\<close>

definition digit_char :: "nat \<Rightarrow> char" where
  "digit_char d = ''0123456789'' ! d"

fun str_nat :: "nat \<Rightarrow> string" where
  "str_nat n = (if n < 10 then [digit_char n] else str_nat (n div 10) @ [digit_char (n mod 10)])"

declare str_nat.simps [simp del]

definition str_int :: "int \<Rightarrow> string" where
  "str_int i = (if i < 0 then CHR ''-'' # str_nat (nat (- i)) else str_nat (nat i))"

text \<open>\<^verbatim>\<open>sep.join(parts)\<close>.\<close>

fun join :: "string \<Rightarrow> string list \<Rightarrow> string" where
  "join sep [] = []"
| "join sep [x] = x"
| "join sep (x # y # ys) = x @ sep @ join sep (y # ys)"

definition em_dash :: string where
  "em_dash = [CHR 0xE2, CHR 0x80, CHR 0x94]"

subsection \<open>Source Runner\<close>

definition metric_count_of :: "string \<Rightarrow> fetched \<Rightarrow> int" where
  "metric_count_of source result =
     (if source = ''web'' then f_article_count result + f_filing_count result
      else if source = ''fundamentals'' then f_metric_count result
      else if source = ''social'' then f_post_count result
      else if source = ''technicals'' then f_signal_count result
      else 0)"

definition failed_result :: "string \<Rightarrow> string \<Rightarrow> gather_result" where
  "failed_result source err =
     \<lparr>gr_source = source, gr_success = False, gr_markdown = [], gr_metric_count = 0,
      gr_error = Some err\<rparr>"

definition run_source ::
  "'w env \<Rightarrow> string \<Rightarrow> string \<Rightarrow> string \<Rightarrow> string option \<Rightarrow> string option
     \<Rightarrow> 'w state \<Rightarrow> gather_result \<times> 'w state" where
  "run_source env source ticker company_name theme directive st =
     (case map_of SOURCE_REGISTRY source of
        None \<Rightarrow> (failed_result source (''Unknown source: '' @ source), st)
      | Some (module_name, func_name) \<Rightarrow>
          (case gather_func env module_name func_name ticker company_name theme directive (world st) of
             (Returned result, w) \<Rightarrow>
               (\<lparr>gr_source = source, gr_success = True, gr_markdown = f_markdown result,
                 gr_metric_count = metric_count_of source result, gr_error = None\<rparr>,
                emit (CallSource source) w st)
           | (RaisedImportError e, w) \<Rightarrow> (failed_result source e, emit (CallSource source) w st)
           | (Raised e, w) \<Rightarrow> (failed_result source e, emit (CallSource source) w st)))"

subsection \<open>Store integration\<close>

definition store_source_result ::
  "'w env \<Rightarrow> string \<Rightarrow> string \<Rightarrow> string \<Rightarrow> string \<Rightarrow> bool \<Rightarrow> 'w state \<Rightarrow> store_result \<times> 'w state" where
  "store_source_result env ticker source markdown timestamp dry_run st =
     (if dry_run
      then (let date_str = take 10 timestamp;
                k = ''research/'' @ date_str @ ''/'' @ ticker @ ''_'' @ source @ ''.md''
            in (\<lparr>sr_success = True, sr_key = k,
                 sr_message = ''[DRY RUN] Would upload to '' @ k\<rparr>, st))
      else (case upload_to_spaces env markdown ticker source timestamp (world st) of
              (Returned result, w) \<Rightarrow> (result, emit (CallStore source) w st)
            | (RaisedImportError e, w) \<Rightarrow>
                (\<lparr>sr_success = False, sr_key = [],
                  sr_message = ''store.py not available '' @ em_dash @ '' cannot upload to Spaces''\<rparr>,
                 emit (CallStore source) w st)
            | (Raised e, w) \<Rightarrow>
                (\<lparr>sr_success = False, sr_key = [], sr_message = ''Upload failed: '' @ e\<rparr>,
                 emit (CallStore source) w st)))"

definition trigger_reindex :: "'w env \<Rightarrow> bool \<Rightarrow> 'w state \<Rightarrow> reindex_result \<times> 'w state" where
  "trigger_reindex env dry_run st =
     (if dry_run
      then (\<lparr>rx_success = True, rx_message = ''[DRY RUN] Would trigger KB reindex''\<rparr>, st)
      else (case trigger_kb_reindex env of
              None \<Rightarrow>
                (\<lparr>rx_success = False,
                  rx_message = ''store.py not available '' @ em_dash @ '' cannot trigger reindex''\<rparr>,
                 st)
            | Some sink \<Rightarrow>
                (case sink (world st) of
                   (Returned result, w) \<Rightarrow> (result, emit CallReindex w st)
                 | (RaisedImportError e, w) \<Rightarrow>
                     (\<lparr>rx_success = False,
                       rx_message = ''store.py not available '' @ em_dash @ '' cannot trigger reindex''\<rparr>,
                      emit CallReindex w st)
                 | (Raised e, w) \<Rightarrow>
                     (\<lparr>rx_success = False, rx_message = ''Reindex failed: '' @ e\<rparr>,
                      emit CallReindex w st))))"

subsection \<open>Orchestrator\<close>

record gather_report =
  rep_source :: string
  rep_success :: bool
  rep_metric_count :: int
  rep_error :: "string option"

record store_report =
  st_source :: string
  st_success :: bool
  st_key :: string
  st_message :: string

text \<open>
  The dictionary \<^verbatim>\<open>gather\<close> returns. The early return for an empty source list has no
  \<^verbatim>\<open>dry_run\<close> key, hence the \<open>option\<close>.
\<close>

record orchestration =
  o_ticker :: string
  o_company :: string
  o_agent :: string
  o_timestamp :: string
  o_sources :: "string list"
  o_gather_results :: "gather_report list"
  o_store_results :: "store_report list"
  o_reindex :: reindex_result
  o_summary :: string
  o_success :: bool
  o_dry_run :: "bool option"

text \<open>\<^verbatim>\<open>if sources is None: sources = AGENT_SOURCES.get(agent, [])\<close>.\<close>

definition resolve_sources :: "string \<Rightarrow> string list option \<Rightarrow> string list" where
  "resolve_sources agent sources =
     (case sources of
        None \<Rightarrow> (case map_of AGENT_SOURCES agent of None \<Rightarrow> [] | Some l \<Rightarrow> l)
      | Some l \<Rightarrow> l)"

definition PACING :: rat where
  "PACING = 2 / 10"

text \<open>
  Step 1, the loop \<^verbatim>\<open>for source in sources\<close>. The argument \<open>last_source\<close> is
  \<^verbatim>\<open>sources[-1]\<close> of the whole list, which the loop compares each source with.
\<close>

fun gather_sources ::
  "'w env \<Rightarrow> string \<Rightarrow> string \<Rightarrow> string option \<Rightarrow> string option \<Rightarrow> string \<Rightarrow> string list
     \<Rightarrow> 'w state \<Rightarrow> gather_result list \<times> 'w state" where
  "gather_sources env ticker company_name theme directive last_source [] st = ([], st)"
| "gather_sources env ticker company_name theme directive last_source (source # rest) st =
     (case run_source env source ticker company_name theme directive st of
        (result, st1) \<Rightarrow>
          (case gather_sources env ticker company_name theme directive last_source rest
                  (if source \<noteq> last_source then emit (Sleep PACING) (world st1) st1 else st1) of
             (results, st2) \<Rightarrow> (result # results, st2)))"

definition skipped_result :: "gather_result \<Rightarrow> store_result" where
  "skipped_result gr =
     \<lparr>sr_success = False, sr_key = [],
      sr_message = ''Skipped: '' @ gr_source gr @ '' gather failed''\<rparr>"

text \<open>
  Step 2, the loop \<^verbatim>\<open>for gr in gather_results\<close>; \<open>any_stored\<close> is the flag of the
  source, passed along and returned.
\<close>

fun store_results ::
  "'w env \<Rightarrow> string \<Rightarrow> string \<Rightarrow> bool \<Rightarrow> gather_result list \<Rightarrow> bool \<Rightarrow> 'w state
     \<Rightarrow> store_result list \<times> bool \<times> 'w state" where
  "store_results env ticker timestamp dry_run [] any_stored st = ([], any_stored, st)"
| "store_results env ticker timestamp dry_run (gr # rest) any_stored st =
     (if gr_success gr \<and> gr_markdown gr \<noteq> []
      then (case store_source_result env ticker (gr_source gr) (gr_markdown gr) timestamp dry_run st of
              (sr, st1) \<Rightarrow>
                (case store_results env ticker timestamp dry_run rest
                        (if sr_success sr then True else any_stored) st1 of
                   (srs, a, st2) \<Rightarrow> (sr # srs, a, st2)))
      else (case store_results env ticker timestamp dry_run rest any_stored st of
              (srs, a, st2) \<Rightarrow> (skipped_result gr # srs, a, st2)))"

text \<open>Step 3.\<close>

definition reindex_step :: "'w env \<Rightarrow> bool \<Rightarrow> bool \<Rightarrow> 'w state \<Rightarrow> reindex_result \<times> 'w state" where
  "reindex_step env dry_run any_stored st =
     (if any_stored then trigger_reindex env dry_run st
      else (\<lparr>rx_success = False,
             rx_message = ''No data stored '' @ em_dash @ '' skipping reindex''\<rparr>, st))"

text \<open>\<^verbatim>\<open>_source_label(source, count)\<close>.\<close>

definition source_label :: "string \<Rightarrow> int \<Rightarrow> string" where
  "source_label source count =
     (case map_of
             [(''web'', str_int count @ '' articles/filings''),
              (''fundamentals'', str_int count @ '' financial metrics''),
              (''social'', str_int count @ '' social posts''),
              (''technicals'', str_int count @ '' technical signals'')] source of
        Some label \<Rightarrow> label
      | None \<Rightarrow> str_int count @ '' items from '' @ source)"

text \<open>Step 4, the digest, in two parts: the labels and the failed clause.\<close>

definition summary_head :: "string \<Rightarrow> gather_result list \<Rightarrow> string" where
  "summary_head ticker gather_results =
     (let succeeded = filter gr_success gather_results;
          summary_parts = map (\<lambda>gr. source_label (gr_source gr) (gr_metric_count gr)) succeeded
      in if summary_parts \<noteq> [] then ''$'' @ ticker @ '': '' @ join '', '' summary_parts
         else ''$'' @ ticker @ '': no data gathered'')"

definition failed_clause :: "gather_result list \<Rightarrow> string" where
  "failed_clause gather_results =
     (let failed = filter (\<lambda>gr. \<not> gr_success gr) gather_results
      in if failed \<noteq> [] then '' (failed: '' @ join '', '' (map gr_source failed) @ '')''
         else [])"

definition build_summary :: "string \<Rightarrow> gather_result list \<Rightarrow> string" where
  "build_summary ticker gather_results =
     summary_head ticker gather_results @ failed_clause gather_results"

definition report_of :: "gather_result \<Rightarrow> gather_report" where
  "report_of gr =
     \<lparr>rep_source = gr_source gr, rep_success = gr_success gr,
      rep_metric_count = gr_metric_count gr, rep_error = gr_error gr\<rparr>"

definition store_reports :: "string list \<Rightarrow> store_result list \<Rightarrow> store_report list" where
  "store_reports sources srs =
     map (\<lambda>(i, sr).
            \<lparr>st_source = (if i < length sources then sources ! i else ''unknown''),
             st_success = sr_success sr, st_key = sr_key sr, st_message = sr_message sr\<rparr>)
         (zip [0..<length srs] srs)"

definition no_sources_result :: "string \<Rightarrow> string \<Rightarrow> string \<Rightarrow> string \<Rightarrow> orchestration" where
  "no_sources_result ticker company_name agent timestamp =
     \<lparr>o_ticker = ticker, o_company = company_name, o_agent = agent, o_timestamp = timestamp,
      o_sources = [], o_gather_results = [], o_store_results = [],
      o_reindex = \<lparr>rx_success = False, rx_message = ''No sources to gather''\<rparr>,
      o_summary = ''No sources configured for agent '' @ [CHR 0x27] @ agent @ [CHR 0x27],
      o_success = False, o_dry_run = None\<rparr>"

text \<open>
  \<^verbatim>\<open>gather(ticker, company_name, agent, sources, theme, directive, dry_run)\<close>;
  \<open>timestamp\<close> is the \<^verbatim>\<open>datetime.now(timezone.utc).isoformat()\<close> taken at entry.
\<close>

definition gather ::
  "'w env \<Rightarrow> string \<Rightarrow> string \<Rightarrow> string \<Rightarrow> string \<Rightarrow> string list option \<Rightarrow> string option
     \<Rightarrow> string option \<Rightarrow> bool \<Rightarrow> 'w state \<Rightarrow> orchestration \<times> 'w state" where
  "gather env timestamp ticker company_name agent sources_arg theme directive dry_run st =
     (let sources = resolve_sources agent sources_arg
      in if sources = [] then (no_sources_result ticker company_name agent timestamp, st)
         else
           (case gather_sources env ticker company_name theme directive (last sources) sources st of
              (gather_results, st1) \<Rightarrow>
                (case store_results env ticker timestamp dry_run gather_results False st1 of
                   (srs, any_stored, st2) \<Rightarrow>
                     (case reindex_step env dry_run any_stored st2 of
                        (reindex_result, st3) \<Rightarrow>
                          (\<lparr>o_ticker = ticker, o_company = company_name, o_agent = agent,
                            o_timestamp = timestamp, o_sources = sources,
                            o_gather_results = map report_of gather_results,
                            o_store_results = store_reports sources srs,
                            o_reindex = reindex_result,
                            o_summary = build_summary ticker gather_results,
                            o_success = (length (filter gr_success gather_results) > 0),
                            o_dry_run = Some dry_run\<rparr>, st3)))))"

section \<open>The Concept Resolver as the specification words it\<close>

text \<open>
  The observations of one alias under one unit kind that survive the form, date and
  lookback filters.
\<close>

definition surviving :: "int \<Rightarrow> us_gaap \<Rightarrow> string \<Rightarrow> string \<Rightarrow> observation list" where
  "surviving cutoff_year g alias unit_type =
     filter_entries cutoff_year (get_entries (get_units g alias) unit_type)"

text \<open>
  The specification's reading: go through the aliases in order and, for each alias,
  through the unit kinds in their priority order; the first pair with surviving
  observations gives the series, and there is no series when no pair has any.
\<close>

definition concept_resolver_spec :: "int \<Rightarrow> us_gaap \<Rightarrow> string list \<Rightarrow> observation list" where
  "concept_resolver_spec cutoff_year g aliases =
     (case find (\<lambda>(a, u). surviving cutoff_year g a u \<noteq> []) (List.product aliases UNIT_TYPES) of
        None \<Rightarrow> []
      | Some (a, u) \<Rightarrow> sort_dedup (surviving cutoff_year g a u))"

section \<open>Events of a run\<close>

text \<open>
  What one pass of the gather loop adds to the trace for source \<open>s\<close>: the call of its
  gather function when it is registered, and the delay when its name differs from
  the last name of the list.
\<close>

definition source_events :: "string \<Rightarrow> string \<Rightarrow> event list" where
  "source_events last_source s =
     (if s \<in> fst ` set SOURCE_REGISTRY then [CallSource s] else []) @
     (if s \<noteq> last_source then [Sleep PACING] else [])"

text \<open>The condition under which step 2 hands a gather result to the storage sink.\<close>

definition storable :: "gather_result \<Rightarrow> bool" where
  "storable gr = (gr_success gr \<and> gr_markdown gr \<noteq> [])"

section \<open>Concrete inputs\<close>

definition filing :: "string \<Rightarrow> string \<Rightarrow> string \<Rightarrow> rat \<Rightarrow> entry" where
  "filing f e fd v =
     \<lparr>e_form = f, e_end = e, e_val = Some v, e_filed = fd, e_fy = Some 2024, e_fp = ''FY''\<rparr>"

definition original_10k :: entry where
  "original_10k = filing ''10-K'' ''2024-12-31'' ''2025-02-20'' 100"

definition amended_10k :: entry where
  "amended_10k = filing ''10-K/A'' ''2024-12-31'' ''2025-06-30'' 110"

definition facts_amended :: us_gaap where
  "facts_amended = [''Revenues'' \<mapsto> [''USD'' \<mapsto> [original_10k, amended_10k]]]"

definition facts_second_alias :: us_gaap where
  "facts_second_alias = [''B'' \<mapsto> [''shares'' \<mapsto> [original_10k]]]"

definition obs :: "string \<Rightarrow> rat option \<Rightarrow> observation" where
  "obs f v =
     \<lparr>val = v, end_date = ''2024-12-31'', form = f, filed = ''2025-02-20'',
      fiscal_year = Some 2024, fiscal_period = ''FY''\<rparr>"

definition balance_null_liabilities :: category where
  "balance_null_liabilities =
     [''stockholders_equity'' \<mapsto> [obs ''10-K'' (Some 100)],
      ''total_liabilities'' \<mapsto> [obs ''10-K'' None]]"

definition income_zero_numerators :: category where
  "income_zero_numerators =
     [''revenue'' \<mapsto> [obs ''10-K'' (Some 200)],
      ''gross_profit'' \<mapsto> [obs ''10-K'' (Some 0)],
      ''operating_income'' \<mapsto> [obs ''10-K'' (Some 0)],
      ''net_income'' \<mapsto> [obs ''10-K'' (Some 0)]]"

definition fetched_ok :: fetched where
  "fetched_ok =
     \<lparr>f_markdown = ''# Report'', f_article_count = 3, f_filing_count = 2, f_metric_count = 5,
      f_post_count = 10, f_signal_count = 4\<rparr>"

definition env_web_fails :: "unit env" where
  "env_web_fails =
     \<lparr>gather_func = (\<lambda>m f t c th d w.
         if m = ''gather_web'' then (Raised ''API unavailable'', w) else (Returned fetched_ok, w)),
      upload_to_spaces = (\<lambda>md t s ts w.
         (Returned \<lparr>sr_success = True, sr_key = ''research/'' @ s, sr_message = ''uploaded''\<rparr>, w)),
      trigger_kb_reindex = Some (\<lambda>w. (Returned \<lparr>rx_success = True, rx_message = ''started''\<rparr>, w))\<rparr>"

definition env_all_fail :: "unit env" where
  "env_all_fail =
     \<lparr>gather_func = (\<lambda>m f t c th d w. (Raised ''API unavailable'', w)),
      upload_to_spaces = (\<lambda>md t s ts w.
         (Returned \<lparr>sr_success = True, sr_key = ''research/'' @ s, sr_message = ''uploaded''\<rparr>, w)),
      trigger_kb_reindex = Some (\<lambda>w. (Returned \<lparr>rx_success = True, rx_message = ''started''\<rparr>, w))\<rparr>"

definition env_reindex_missing :: "unit env" where
  "env_reindex_missing =
     \<lparr>gather_func = (\<lambda>m f t c th d w. (Returned fetched_ok, w)),
      upload_to_spaces = (\<lambda>md t s ts w.
         (Returned \<lparr>sr_success = True, sr_key = ''research/'' @ s, sr_message = ''uploaded''\<rparr>, w)),
      trigger_kb_reindex = None\<rparr>"

definition st0 :: "unit state" where
  "st0 = \<lparr>world = (), trace = []\<rparr>"

definition ts0 :: string where
  "ts0 = ''2026-01-05T09:00:00+00:00''"

section \<open>Properties of the extraction\<close>

lemmas py_int_simps =
  py_int_def strip_def is_space_def is_digit_def digits_nat_def digit_val_def less_eq_char_def

lemmas extract_simps =
  extract_concept_data_def get_units_def get_entries_def UNIT_TYPES_def FORMS_def
  sort_dedup_def dedup_key_def mk_result_def filing_def py_int_simps

subsection \<open>Deduplication and ordering\<close>

lemma dedup_keys_notin: "dedup_key ` set (dedup seen rs) \<inter> seen = {}"
  by (induction rs arbitrary: seen) auto

lemma dedup_subset: "set (dedup seen rs) \<subseteq> set rs"
  by (induction rs arbitrary: seen) auto

lemma dedup_distinct: "distinct (map dedup_key (dedup seen rs))"
proof (induction rs arbitrary: seen)
  case Nil
  show ?case by simp
next
  case (Cons r rs)
  have "dedup_key r \<notin> dedup_key ` set (dedup (insert (dedup_key r) seen) rs)"
    using dedup_keys_notin [of "insert (dedup_key r) seen" rs] by auto
  with Cons show ?case by simp
qed

lemma dedup_sorted:
  "sorted (map end_date rs) \<Longrightarrow> sorted (map end_date (dedup seen rs))"
proof (induction rs arbitrary: seen)
  case Nil
  show ?case by simp
next
  case (Cons r rs)
  have sub: "set (dedup (insert (dedup_key r) seen) rs) \<subseteq> set rs"
    by (rule dedup_subset)
  from Cons show ?case using sub by auto
qed

lemma sort_dedup_inv:
  "distinct (map dedup_key (sort_dedup rs)) \<and> sorted (map end_date (sort_dedup rs))"
  by (simp add: sort_dedup_def dedup_distinct dedup_sorted)

lemma try_units_inv:
  "try_units c us uts = Some r \<Longrightarrow> distinct (map dedup_key r) \<and> sorted (map end_date r)"
  by (induction uts) (auto simp: Let_def sort_dedup_inv split: if_splits)

lemma try_concepts_inv:
  "distinct (map dedup_key (try_concepts c g cs)) \<and> sorted (map end_date (try_concepts c g cs))"
  by (induction cs) (auto split: option.splits dest: try_units_inv)

text \<open>
  C7: every sequence the Temporal Extractor returns has pairwise different keys
  (period-end date, filing type without the amendment suffix) and is sorted ascending
  by period-end date; the dates are compared as the strings the code sorts on.
\<close>

theorem extractor_keys_distinct_and_sorted:
  "distinct (map dedup_key (extract_concept_data now_year g concept_names years)) \<and>
   sorted (map end_date (extract_concept_data now_year g concept_names years))"
  by (simp add: extract_concept_data_def try_concepts_inv)

text \<open>
  C1: the claim says the last-seen record of a key is kept, so that an amended filing
  overrides its original. On an original 10-K followed by its 10-K/A for the same
  period end, the code returns the original (value 100) and drops the amendment
  (value 110): it keeps the first-seen record.
\<close>

theorem dedup_keeps_original_not_amendment:
  "extract_concept_data 2026 facts_amended [''Revenues''] 5 = [mk_result original_10k] \<and>
   map val (extract_concept_data 2026 facts_amended [''Revenues''] 5) = [Some 100]"
  by (simp add: facts_amended_def original_10k_def amended_10k_def extract_simps)

subsection \<open>Alias and unit priority\<close>

lemma find_append_opt:
  "find P (xs @ ys) = (case find P xs of None \<Rightarrow> find P ys | Some x \<Rightarrow> Some x)"
  by (induction xs) auto

lemma find_map_Pair:
  "find P (map (Pair a) us) = map_option (Pair a) (find (\<lambda>u. P (a, u)) us)"
  by (induction us) auto

lemma try_units_find:
  "try_units c us uts =
     (case find (\<lambda>u. filter_entries c (get_entries us u) \<noteq> []) uts of
        None \<Rightarrow> None
      | Some u \<Rightarrow> Some (sort_dedup (filter_entries c (get_entries us u))))"
  by (induction uts) (auto simp: Let_def)

lemma try_concepts_spec: "try_concepts c g aliases = concept_resolver_spec c g aliases"
proof (induction aliases)
  case Nil
  show ?case by (simp add: concept_resolver_spec_def)
next
  case (Cons a as)
  show ?case
  proof (cases "find (\<lambda>u. surviving c g a u \<noteq> []) UNIT_TYPES")
    case None
    then show ?thesis
      using Cons
      by (simp add: concept_resolver_spec_def try_units_find find_append_opt find_map_Pair
          surviving_def)
  next
    case (Some u)
    then show ?thesis
      by (simp add: concept_resolver_spec_def try_units_find find_append_opt find_map_Pair
          surviving_def)
  qed
qed

text \<open>
  C3: the Concept Resolver returns the series of the first alias, in list order, that
  has surviving observations under some unit kind, the unit kinds tried in the order
  USD, USD/shares, shares, pure; with no such alias it returns the empty list. The
  function is total: no branch of it raises.
\<close>

theorem concept_resolver_first_alias:
  "extract_concept_data now_year g aliases years =
     concept_resolver_spec (now_year - years) g aliases"
  by (simp add: extract_concept_data_def try_concepts_spec)

theorem concept_resolver_first_alias_witness:
  "extract_concept_data 2026 facts_second_alias [''A'', ''B''] 5 = [mk_result original_10k]"
  using concept_resolver_first_alias [of 2026 facts_second_alias "[''A'', ''B'']" 5]
  by (simp add: concept_resolver_spec_def surviving_def facts_second_alias_def
      original_10k_def extract_simps)

section \<open>Properties of the Derivation Engine\<close>

lemmas derive_simps =
  get_metric_def get_latest_value_def obs_def truthy_def py_float_def bind_err_def

lemma margin_of_Inr: "\<exists>ms. margin_of l d r = Inr ms"
  by (auto simp: margin_of_def truthy_def py_float_def bind_err_def split: option.splits)

lemma margin_of_iff:
  "margin_of l d r = Inr ms \<Longrightarrow>
   (l', m) \<in> set ms \<longleftrightarrow>
     (l' = l \<and> (\<exists>x v. get_latest_value d ''10-K'' = Some x \<and> val x = Some v \<and> v \<noteq> 0
                  \<and> m = v / r * 100))"
  by (auto simp: margin_of_def truthy_def py_float_def bind_err_def
      split: option.splits if_splits)

lemma margins_pos:
  assumes "get_latest_value (get_metric income ''revenue'') ''10-K'' = Some rev_latest"
    and "val rev_latest = Some r" and "0 < r"
  shows "\<exists>g opm n. margin_of ''Gross'' (get_metric income ''gross_profit'') r = Inr g
     \<and> margin_of ''Operating'' (get_metric income ''operating_income'') r = Inr opm
     \<and> margin_of ''Net'' (get_metric income ''net_income'') r = Inr n
     \<and> margins income = Inr (g @ opm @ n)"
proof -
  obtain g where g: "margin_of ''Gross'' (get_metric income ''gross_profit'') r = Inr g"
    using margin_of_Inr by blast
  obtain opm where o: "margin_of ''Operating'' (get_metric income ''operating_income'') r = Inr opm"
    using margin_of_Inr by blast
  obtain n where n: "margin_of ''Net'' (get_metric income ''net_income'') r = Inr n"
    using margin_of_Inr by blast
  have "margins income = Inr (g @ opm @ n)"
    using assms g o n by (simp add: margins_def truthy_def py_float_def bind_err_def)
  with g o n show ?thesis by blast
qed

text \<open>The margins never raise, and neither does the free cash flow.\<close>

lemma margins_never_raises: "\<exists>ms. margins income = Inr ms"
proof (cases "get_latest_value (get_metric income ''revenue'') ''10-K''")
  case None
  then show ?thesis by (simp add: margins_def)
next
  case rl: (Some rev_latest)
  show ?thesis
  proof (cases "val rev_latest")
    case None
    with rl show ?thesis by (simp add: margins_def truthy_def)
  next
    case (Some r)
    show ?thesis
    proof (cases "0 < r")
      case True
      from margins_pos[OF rl Some True] show ?thesis by blast
    next
      case False
      with Some rl show ?thesis
        by (simp add: margins_def truthy_def py_float_def bind_err_def)
    qed
  qed
qed

lemma free_cash_flow_never_raises: "\<exists>fs. free_cash_flow cash_flow = Inr fs"
  by (auto simp: free_cash_flow_def py_float_def bind_err_def split: option.splits)

text \<open>
  C2: the claim says that a derived figure is omitted, and no error is raised, whenever
  an input is missing or null. With stockholders' equity 100 and a total-liabilities
  observation whose value is null, the debt-to-equity statement guards only the
  denominator and calls \<^verbatim>\<open>float(None)\<close> on the numerator: the ratios block raises
  \<^verbatim>\<open>TypeError\<close>.
\<close>

theorem ratio_null_numerator_raises:
  "key_ratios balance_null_liabilities = Inl TypeError"
  by (simp add: key_ratios_def de_ratio_def balance_null_liabilities_def derive_simps)

text \<open>
  C10: with a strictly positive latest revenue, a margin is emitted exactly when the
  latest observation of its numerator metric has a value that is neither null nor
  zero, and then it is that value over revenue times 100; so a numerator of exactly
  zero gives no margin entry (never a 0.0 percent one).
\<close>

theorem margin_requires_nonzero_numerator:
  assumes "get_latest_value (get_metric income ''revenue'') ''10-K'' = Some rev_latest"
    and "val rev_latest = Some r" and "0 < r"
  shows "\<exists>ms. margins income = Inr ms \<and>
     (\<forall>m. (''Gross'', m) \<in> set ms \<longleftrightarrow>
        (\<exists>x v. get_latest_value (get_metric income ''gross_profit'') ''10-K'' = Some x
               \<and> val x = Some v \<and> v \<noteq> 0 \<and> m = v / r * 100)) \<and>
     (\<forall>m. (''Operating'', m) \<in> set ms \<longleftrightarrow>
        (\<exists>x v. get_latest_value (get_metric income ''operating_income'') ''10-K'' = Some x
               \<and> val x = Some v \<and> v \<noteq> 0 \<and> m = v / r * 100)) \<and>
     (\<forall>m. (''Net'', m) \<in> set ms \<longleftrightarrow>
        (\<exists>x v. get_latest_value (get_metric income ''net_income'') ''10-K'' = Some x
               \<and> val x = Some v \<and> v \<noteq> 0 \<and> m = v / r * 100))"
proof -
  from margins_pos[OF assms] obtain g opm n where
    g: "margin_of ''Gross'' (get_metric income ''gross_profit'') r = Inr g" and
    o: "margin_of ''Operating'' (get_metric income ''operating_income'') r = Inr opm" and
    n: "margin_of ''Net'' (get_metric income ''net_income'') r = Inr n" and
    m: "margins income = Inr (g @ opm @ n)" by blast
  show ?thesis
    using m margin_of_iff[OF g] margin_of_iff[OF o] margin_of_iff[OF n]
    by simp
qed

theorem margin_requires_nonzero_numerator_witness:
  "get_latest_value (get_metric income_zero_numerators ''revenue'') ''10-K'' = Some (obs ''10-K'' (Some 200))
   \<and> val (obs ''10-K'' (Some 200)) = Some 200 \<and> (0::rat) < 200
   \<and> get_latest_value (get_metric income_zero_numerators ''gross_profit'') ''10-K'' = Some (obs ''10-K'' (Some 0))
   \<and> (\<exists>ms. margins income_zero_numerators = Inr ms \<and> (\<forall>m. (''Gross'', m) \<notin> set ms)
        \<and> (\<forall>m. (''Operating'', m) \<notin> set ms) \<and> (\<forall>m. (''Net'', m) \<notin> set ms))"
proof -
  have h1: "get_latest_value (get_metric income_zero_numerators ''revenue'') ''10-K'' = Some (obs ''10-K'' (Some 200))"
    by (simp add: income_zero_numerators_def derive_simps)
  have h2: "val (obs ''10-K'' (Some 200)) = Some 200" by (simp add: obs_def)
  have h3: "(0::rat) < 200" by simp
  have g: "get_latest_value (get_metric income_zero_numerators ''gross_profit'') ''10-K'' = Some (obs ''10-K'' (Some 0))"
    by (simp add: income_zero_numerators_def derive_simps)
  have o: "get_latest_value (get_metric income_zero_numerators ''operating_income'') ''10-K'' = Some (obs ''10-K'' (Some 0))"
    by (simp add: income_zero_numerators_def derive_simps)
  have n: "get_latest_value (get_metric income_zero_numerators ''net_income'') ''10-K'' = Some (obs ''10-K'' (Some 0))"
    by (simp add: income_zero_numerators_def derive_simps)
  have v0: "val (obs ''10-K'' (Some 0)) = Some 0" by (simp add: obs_def)
  from margin_requires_nonzero_numerator[OF h1 h2 h3]
  have "\<exists>ms. margins income_zero_numerators = Inr ms \<and> (\<forall>m. (''Gross'', m) \<notin> set ms)
        \<and> (\<forall>m. (''Operating'', m) \<notin> set ms) \<and> (\<forall>m. (''Net'', m) \<notin> set ms)"
    unfolding g o n by (simp add: v0)
  with h1 h2 h3 g show ?thesis by blast
qed

section \<open>Properties of the orchestrator\<close>

subsection \<open>Traces and results of the steps\<close>

lemma in_registry_iff: "s \<in> fst ` set SOURCE_REGISTRY \<longleftrightarrow> map_of SOURCE_REGISTRY s \<noteq> None"
  by (simp add: map_of_eq_None_iff)

lemma run_source_trace:
  "trace (snd (run_source env s t c th d st)) =
     trace st @ (if s \<in> fst ` set SOURCE_REGISTRY then [CallSource s] else [])"
  unfolding in_registry_iff
  by (cases "map_of SOURCE_REGISTRY s")
     (auto simp: run_source_def emit_def split: prod.splits outcome.splits)

lemma run_source_source: "gr_source (fst (run_source env s t c th d st)) = s"
  by (cases "map_of SOURCE_REGISTRY s")
     (auto simp: run_source_def failed_result_def split: prod.splits outcome.splits)

lemma run_source_env_cong:
  "gather_func env' = gather_func env \<Longrightarrow>
   run_source env' s t c th d st = run_source env s t c th d st"
  by (cases "map_of SOURCE_REGISTRY s") (auto simp: run_source_def)

lemma gather_sources_trace:
  "trace (snd (gather_sources env t c th d l ss st)) =
     trace st @ concat (map (source_events l) ss)"
proof (induction ss arbitrary: st)
  case Nil
  show ?case by simp
next
  case (Cons s ss)
  obtain r st1 where rs: "run_source env s t c th d st = (r, st1)" by (cases "run_source env s t c th d st")
  have t1: "trace st1 = trace st @ (if s \<in> fst ` set SOURCE_REGISTRY then [CallSource s] else [])"
    using run_source_trace[of env s t c th d st] rs by simp
  define st1' where "st1' = (if s \<noteq> l then emit (Sleep PACING) (world st1) st1 else st1)"
  have t2: "trace st1' = trace st @ source_events l s"
    using t1 by (simp add: st1'_def source_events_def emit_def)
  obtain rs2 st2 where g: "gather_sources env t c th d l ss st1' = (rs2, st2)"
    by (cases "gather_sources env t c th d l ss st1'")
  have "gather_sources env t c th d l (s # ss) st = (r # rs2, st2)"
    using rs g by (simp add: st1'_def)
  moreover have "trace st2 = trace st1' @ concat (map (source_events l) ss)"
    using Cons[of st1'] g by simp
  ultimately show ?case using t2 by simp
qed

lemma gather_sources_names:
  "map gr_source (fst (gather_sources env t c th d l ss st)) = ss"
proof (induction ss arbitrary: st)
  case Nil
  show ?case by simp
next
  case (Cons s ss)
  obtain r st1 where rs: "run_source env s t c th d st = (r, st1)" by (cases "run_source env s t c th d st")
  define st1' where "st1' = (if s \<noteq> l then emit (Sleep PACING) (world st1) st1 else st1)"
  obtain rs2 st2 where g: "gather_sources env t c th d l ss st1' = (rs2, st2)"
    by (cases "gather_sources env t c th d l ss st1'")
  have "gather_sources env t c th d l (s # ss) st = (r # rs2, st2)"
    using rs g by (simp add: st1'_def)
  moreover have "gr_source r = s" using run_source_source[of env s t c th d st] rs by simp
  moreover have "map gr_source rs2 = ss" using Cons[of st1'] g by simp
  ultimately show ?case by simp
qed

lemma gather_sources_env_cong:
  assumes "gather_func env' = gather_func env"
  shows "gather_sources env' t c th d l ss st = gather_sources env t c th d l ss st"
proof (induction ss arbitrary: st)
  case Nil
  show ?case by simp
next
  case (Cons s ss)
  have "run_source env' s t c th d st = run_source env s t c th d st"
    by (rule run_source_env_cong[OF assms])
  then show ?case using Cons by simp
qed

lemma store_source_result_trace:
  "trace (snd (store_source_result env t s m ts dry st)) =
     trace st @ (if dry then [] else [CallStore s])"
  by (auto simp: store_source_result_def emit_def Let_def split: prod.splits outcome.splits)

lemma store_results_trace:
  "store_results env t ts dry grs a st = (srs, a', st') \<Longrightarrow>
   trace st' = trace st @ (if dry then [] else map (\<lambda>gr. CallStore (gr_source gr)) (filter storable grs))"
proof (induction grs arbitrary: a st srs a' st')
  case Nil
  then show ?case by simp
next
  case (Cons gr grs)
  show ?case
  proof (cases "storable gr")
    case True
    obtain sr st1 where s: "store_source_result env t (gr_source gr) (gr_markdown gr) ts dry st = (sr, st1)"
      by (cases "store_source_result env t (gr_source gr) (gr_markdown gr) ts dry st")
    have t1: "trace st1 = trace st @ (if dry then [] else [CallStore (gr_source gr)])"
      using store_source_result_trace[of env t "gr_source gr" "gr_markdown gr" ts dry st] s by simp
    obtain srs2 a2 st2 where r: "store_results env t ts dry grs (if sr_success sr then True else a) st1 = (srs2, a2, st2)"
      by (cases "store_results env t ts dry grs (if sr_success sr then True else a) st1")
    have "st' = st2" using Cons.prems True s r by (simp add: storable_def)
    with Cons.IH[OF r] t1 True show ?thesis by simp
  next
    case False
    obtain srs2 a2 st2 where r: "store_results env t ts dry grs a st = (srs2, a2, st2)"
      by (cases "store_results env t ts dry grs a st")
    have "st' = st2" using Cons.prems False r by (auto simp: storable_def)
    with Cons.IH[OF r] False show ?thesis by simp
  qed
qed

lemma store_results_any:
  "store_results env t ts dry grs a st = (srs, a', st') \<Longrightarrow>
   a' = (a \<or> (\<exists>sr\<in>set srs. sr_success sr)) \<and> length srs = length grs"
proof (induction grs arbitrary: a st srs a' st')
  case Nil
  then show ?case by simp
next
  case (Cons gr grs)
  show ?case
  proof (cases "storable gr")
    case True
    obtain sr st1 where s: "store_source_result env t (gr_source gr) (gr_markdown gr) ts dry st = (sr, st1)"
      by (cases "store_source_result env t (gr_source gr) (gr_markdown gr) ts dry st")
    obtain srs2 a2 st2 where r: "store_results env t ts dry grs (if sr_success sr then True else a) st1 = (srs2, a2, st2)"
      by (cases "store_results env t ts dry grs (if sr_success sr then True else a) st1")
    have e: "srs = sr # srs2" "a' = a2" using Cons.prems True s r by (simp_all add: storable_def)
    from Cons.IH[OF r] e show ?thesis by auto
  next
    case False
    obtain srs2 a2 st2 where r: "store_results env t ts dry grs a st = (srs2, a2, st2)"
      by (cases "store_results env t ts dry grs a st")
    have e: "srs = skipped_result gr # srs2" "a' = a2" using Cons.prems False r by (auto simp: storable_def)
    from Cons.IH[OF r] e show ?thesis by (auto simp: skipped_result_def)
  qed
qed

lemma reindex_step_trace:
  "trace (snd (reindex_step env dry a st)) =
     trace st @ (if a \<and> \<not> dry \<and> trigger_kb_reindex env \<noteq> None then [CallReindex] else [])"
  by (auto simp: reindex_step_def trigger_reindex_def emit_def
      split: option.splits prod.splits outcome.splits)

lemma reindex_step_result:
  "fst (reindex_step env dry a st) =
     (if \<not> a then \<lparr>rx_success = False, rx_message = ''No data stored '' @ em_dash @ '' skipping reindex''\<rparr>
      else if dry then \<lparr>rx_success = True, rx_message = ''[DRY RUN] Would trigger KB reindex''\<rparr>
      else fst (trigger_reindex env False st))"
  by (auto simp: reindex_step_def trigger_reindex_def)

lemma store_reports_success:
  "map st_success (store_reports sources srs) = map sr_success srs"
proof -
  have "map st_success (store_reports sources srs) =
          map (\<lambda>p. sr_success (snd p)) (zip [0..<length srs] srs)"
    by (simp add: store_reports_def case_prod_beta)
  also have "\<dots> = map sr_success (map snd (zip [0..<length srs] srs))"
    by (simp only: map_map o_def)
  also have "\<dots> = map sr_success srs"
    by (simp add: map_snd_zip)
  finally show ?thesis .
qed

lemma gather_nonempty:
  assumes "resolve_sources agent sa = sources" "sources \<noteq> []"
    and "gather_sources env t c th d (last sources) sources st = (grs, st1)"
    and "store_results env t ts dry grs False st1 = (srs, a, st2)"
  shows "gather env ts t c agent sa th d dry st =
      (\<lparr>o_ticker = t, o_company = c, o_agent = agent, o_timestamp = ts, o_sources = sources,
        o_gather_results = map report_of grs, o_store_results = store_reports sources srs,
        o_reindex = fst (reindex_step env dry a st2),
        o_summary = build_summary t grs,
        o_success = (length (filter gr_success grs) > 0),
        o_dry_run = Some dry\<rparr>, snd (reindex_step env dry a st2))"
proof -
  obtain rx st3 where r: "reindex_step env dry a st2 = (rx, st3)"
    by (cases "reindex_step env dry a st2")
  show ?thesis
    unfolding gather_def Let_def assms(1)
    using assms(2-4) r by simp
qed

lemma join_member_sublist: "x \<in> set xs \<Longrightarrow> sublist x (join sep xs)"
proof (induction sep xs rule: join.induct)
  case (1 sep)
  then show ?case by simp
next
  case (2 sep x')
  then show ?case by simp
next
  case (3 sep x' y ys)
  show ?case
  proof (cases "x = x'")
    case True
    then show ?thesis by simp
  next
    case False
    with 3 have "sublist x (join sep (y # ys))" by simp
    then obtain ps ss where "join sep (y # ys) = ps @ x @ ss" by (auto simp: sublist_def)
    then have "join sep (x' # y # ys) = (x' @ sep @ ps) @ x @ ss" by simp
    then show ?thesis unfolding sublist_def by blast
  qed
qed

lemmas gather_eval =
  gather_def resolve_sources_def AGENT_SOURCES_def SOURCE_REGISTRY_def run_source_def
  store_source_result_def trigger_reindex_def reindex_step_def emit_def failed_result_def
  skipped_result_def metric_count_of_def store_reports_def report_of_def build_summary_def
  summary_head_def failed_clause_def source_label_def str_int_def digit_char_def PACING_def
  env_web_fails_def fetched_ok_def st0_def ts0_def no_sources_result_def

lemma any_filter_conv: "(0 < length (filter P xs)) = (\<exists>x\<in>set xs. P x)"
  by (simp add: filter_empty_conv)

lemma gather_trace:
  assumes "resolve_sources agent sa = sources" "sources \<noteq> []"
    and "gather_sources env t c th d (last sources) sources st = (grs, st1)"
    and "store_results env t ts dry grs False st1 = (srs, a, st2)"
  shows "trace (snd (gather env ts t c agent sa th d dry st)) =
     trace st @ concat (map (source_events (last sources)) sources)
       @ (if dry then [] else map (\<lambda>gr. CallStore (gr_source gr)) (filter storable grs))
       @ (if a \<and> \<not> dry \<and> trigger_kb_reindex env \<noteq> None then [CallReindex] else [])"
proof -
  have t1: "trace st1 = trace st @ concat (map (source_events (last sources)) sources)"
    using gather_sources_trace[of env t c th d "last sources" sources st] assms(3) by simp
  have t2: "trace st2 = trace st1 @
      (if dry then [] else map (\<lambda>gr. CallStore (gr_source gr)) (filter storable grs))"
    by (rule store_results_trace[OF assms(4)])
  show ?thesis
    unfolding gather_nonempty[OF assms] snd_conv reindex_step_trace t2 t1 by simp
qed

lemma source_events_no_sink:
  "CallStore s \<notin> set (concat (map (source_events l) ss)) \<and>
   CallReindex \<notin> set (concat (map (source_events l) ss))"
  by (induction ss) (auto simp: source_events_def)

lemma count_source_events: "count_list (concat (map (source_events l) ss)) CallReindex = 0"
  using source_events_no_sink[of _ l ss] by (simp add: count_list_0_iff)

lemma count_store_events:
  "count_list (map (\<lambda>gr. CallStore (gr_source gr)) xs) CallReindex = 0"
  by (induction xs) auto

lemma store_results_none_storable:
  "store_results env t ts dry grs a st = (srs, a', st') \<Longrightarrow> \<forall>gr\<in>set grs. \<not> storable gr \<Longrightarrow>
   \<forall>sr\<in>set srs. \<not> sr_success sr"
proof (induction grs arbitrary: a st srs a' st')
  case Nil
  then show ?case by simp
next
  case (Cons gr grs)
  obtain srs2 a2 st2 where r: "store_results env t ts dry grs a st = (srs2, a2, st2)"
    by (cases "store_results env t ts dry grs a st")
  have ns: "\<not> (gr_success gr \<and> gr_markdown gr \<noteq> [])" using Cons.prems(2) by (simp add: storable_def)
  have e: "srs = skipped_result gr # srs2" using Cons.prems(1) ns r by auto
  have "\<forall>sr\<in>set srs2. \<not> sr_success sr" using Cons.IH[OF r] Cons.prems(2) by simp
  with e show ?case by (simp add: skipped_result_def)
qed

lemma stored_reports_iff:
  "(\<exists>r\<in>set (store_reports sources srs). st_success r) = (\<exists>sr\<in>set srs. sr_success sr)"
proof -
  have "(\<exists>r\<in>set (store_reports sources srs). st_success r)
          = (True \<in> set (map st_success (store_reports sources srs)))" by auto
  also have "\<dots> = (True \<in> set (map sr_success srs))" by (simp only: store_reports_success)
  also have "\<dots> = (\<exists>sr\<in>set srs. sr_success sr)" by auto
  finally show ?thesis .
qed

text \<open>
  When the last name of the list does not occur earlier in it, the delay does follow
  every invocation but the last.
\<close>

lemma pacing_when_last_name_is_unique:
  assumes "last_source \<notin> set xs"
  shows "trace (snd (gather_sources env t c th d last_source (xs @ [last_source]) st)) =
     trace st
       @ concat (map (\<lambda>s. (if s \<in> fst ` set SOURCE_REGISTRY then [CallSource s] else [])
                           @ [Sleep PACING]) xs)
       @ (if last_source \<in> fst ` set SOURCE_REGISTRY then [CallSource last_source] else [])"
proof -
  have m: "map (source_events last_source) xs =
        map (\<lambda>s. (if s \<in> fst ` set SOURCE_REGISTRY then [CallSource s] else []) @ [Sleep PACING]) xs"
    using assms by (induction xs) (auto simp: source_events_def)
  have l: "source_events last_source last_source =
        (if last_source \<in> fst ` set SOURCE_REGISTRY then [CallSource last_source] else [])"
    by (simp add: source_events_def)
  show ?thesis
    unfolding gather_sources_trace map_append concat_append m by (simp add: l)
qed

subsection \<open>Claims about one invocation\<close>

text \<open>
  C4: for a non-empty source list, the overall success flag is true exactly when some
  source's gather succeeded, and it is the same for every storage and reindex sink;
  the digest ends with the clause "(failed: ...)" that lists the name of every failed
  source, and has no such clause when no source failed; the storage sink is attempted
  only for sources whose gather succeeded with non-empty markdown.
\<close>

theorem gather_partial_success:
  assumes "sources = resolve_sources agent sources_arg" and "sources \<noteq> []"
    and "grs = fst (gather_sources env ticker company theme directive (last sources) sources st)"
    and "res = gather env ts ticker company agent sources_arg theme directive dry_run st"
  shows "o_success (fst res) = (\<exists>gr\<in>set grs. gr_success gr)
     \<and> map gr_source grs = sources
     \<and> (\<forall>env'. gather_func env' = gather_func env \<longrightarrow>
           o_success (fst (gather env' ts ticker company agent sources_arg theme directive dry_run st))
             = o_success (fst res))
     \<and> o_summary (fst res) = summary_head ticker grs @ failed_clause grs
     \<and> ((\<forall>gr\<in>set grs. gr_success gr) \<longrightarrow> failed_clause grs = [])
     \<and> (\<forall>gr\<in>set grs. \<not> gr_success gr \<longrightarrow>
           (\<exists>names. failed_clause grs = '' (failed: '' @ join '', '' names @ '')''
              \<and> gr_source gr \<in> set names \<and> sublist (gr_source gr) (join '', '' names)))
     \<and> (\<exists>evs. trace (snd res) = trace st @ evs
           \<and> (\<forall>s. CallStore s \<in> set evs \<longrightarrow>
                 (\<exists>gr\<in>set grs. gr_source gr = s \<and> gr_success gr \<and> gr_markdown gr \<noteq> [])))"
proof -
  obtain st1 where g: "gather_sources env ticker company theme directive (last sources) sources st = (grs, st1)"
    using assms(3) by (cases "gather_sources env ticker company theme directive (last sources) sources st") simp
  obtain srs a st2 where s: "store_results env ticker ts dry_run grs False st1 = (srs, a, st2)"
    by (cases "store_results env ticker ts dry_run grs False st1") auto
  note r = assms(1)[symmetric]
  note ge = gather_nonempty[OF r assms(2) g s]
  have c1: "o_success (fst res) = (\<exists>gr\<in>set grs. gr_success gr)"
    unfolding assms(4) ge by (simp add: filter_empty_conv)
  have c2: "map gr_source grs = sources"
    using gather_sources_names[of env ticker company theme directive "last sources" sources st] g by simp
  have c3: "\<forall>env'. gather_func env' = gather_func env \<longrightarrow>
           o_success (fst (gather env' ts ticker company agent sources_arg theme directive dry_run st))
             = o_success (fst res)"
  proof (intro allI impI)
    fix env' :: "'a env"
    assume eq: "gather_func env' = gather_func env"
    have g': "gather_sources env' ticker company theme directive (last sources) sources st = (grs, st1)"
      using gather_sources_env_cong[OF eq] g by simp
    obtain srs' a' st2' where s': "store_results env' ticker ts dry_run grs False st1 = (srs', a', st2')"
      by (cases "store_results env' ticker ts dry_run grs False st1") auto
    show "o_success (fst (gather env' ts ticker company agent sources_arg theme directive dry_run st))
             = o_success (fst res)"
      unfolding gather_nonempty[OF r assms(2) g' s'] c1 by (simp add: filter_empty_conv)
  qed
  have c4: "o_summary (fst res) = summary_head ticker grs @ failed_clause grs"
    unfolding assms(4) ge by (simp add: build_summary_def)
  have c5: "(\<forall>gr\<in>set grs. gr_success gr) \<longrightarrow> failed_clause grs = []"
    by (simp add: failed_clause_def filter_empty_conv)
  have c6: "\<forall>gr\<in>set grs. \<not> gr_success gr \<longrightarrow>
           (\<exists>names. failed_clause grs = '' (failed: '' @ join '', '' names @ '')''
              \<and> gr_source gr \<in> set names \<and> sublist (gr_source gr) (join '', '' names))"
  proof (intro ballI impI)
    fix gr assume gr: "gr \<in> set grs" "\<not> gr_success gr"
    let ?names = "map gr_source (filter (\<lambda>gr. \<not> gr_success gr) grs)"
    have ne: "filter (\<lambda>gr. \<not> gr_success gr) grs \<noteq> []"
      using gr by (auto simp: filter_empty_conv)
    have f: "failed_clause grs = '' (failed: '' @ join '', '' ?names @ '')''"
      using ne by (simp add: failed_clause_def)
    have m: "gr_source gr \<in> set ?names" using gr by auto
    from f m join_member_sublist[OF m]
    show "\<exists>names. failed_clause grs = '' (failed: '' @ join '', '' names @ '')''
              \<and> gr_source gr \<in> set names \<and> sublist (gr_source gr) (join '', '' names)"
      by blast
  qed
  let ?evs = "concat (map (source_events (last sources)) sources)
       @ (if dry_run then [] else map (\<lambda>gr. CallStore (gr_source gr)) (filter storable grs))
       @ (if a \<and> \<not> dry_run \<and> trigger_kb_reindex env \<noteq> None then [CallReindex] else [])"
  have t: "trace (snd res) = trace st @ ?evs"
    unfolding assms(4) using gather_trace[OF r assms(2) g s] by simp
  have c7: "\<forall>s. CallStore s \<in> set ?evs \<longrightarrow>
                 (\<exists>gr\<in>set grs. gr_source gr = s \<and> gr_success gr \<and> gr_markdown gr \<noteq> [])"
    using source_events_no_sink[of _ "last sources" sources]
    by (auto simp: storable_def)
  from t c7 have c8: "\<exists>evs. trace (snd res) = trace st @ evs
           \<and> (\<forall>s. CallStore s \<in> set evs \<longrightarrow>
                 (\<exists>gr\<in>set grs. gr_source gr = s \<and> gr_success gr \<and> gr_markdown gr \<noteq> []))"
    by blast
  from c1 c2 c3 c4 c5 c6 c8 show ?thesis by blast
qed

theorem gather_partial_success_witness:
  "o_success (fst (gather env_web_fails ts0 ''CAKE'' ''The Cheesecake Factory'' ''nova'' None None None False st0))
   \<and> o_summary (fst (gather env_web_fails ts0 ''CAKE'' ''The Cheesecake Factory'' ''nova'' None None None False st0))
        = ''$CAKE: 5 financial metrics (failed: web)''
   \<and> trace (snd (gather env_web_fails ts0 ''CAKE'' ''The Cheesecake Factory'' ''nova'' None None None False st0))
        = [CallSource ''web'', Sleep PACING, CallSource ''fundamentals'', CallStore ''fundamentals'', CallReindex]"
proof -
  have ne: "resolve_sources ''nova'' None \<noteq> []"
    by (simp add: resolve_sources_def AGENT_SOURCES_def)
  have ev: "o_summary (fst (gather env_web_fails ts0 ''CAKE'' ''The Cheesecake Factory'' ''nova'' None None None False st0))
        = ''$CAKE: 5 financial metrics (failed: web)''
   \<and> trace (snd (gather env_web_fails ts0 ''CAKE'' ''The Cheesecake Factory'' ''nova'' None None None False st0))
        = [CallSource ''web'', Sleep PACING, CallSource ''fundamentals'', CallStore ''fundamentals'', CallReindex]"
    by (simp add: gather_eval str_nat.simps)
  have grs: "\<exists>gr\<in>set (fst (gather_sources env_web_fails ''CAKE'' ''The Cheesecake Factory'' None None
        (last (resolve_sources ''nova'' None)) (resolve_sources ''nova'' None) st0)). gr_success gr"
    by (simp add: gather_eval)
  from gather_partial_success[where agent="''nova''" and sources_arg=None and env=env_web_fails
      and ticker="''CAKE''" and company="''The Cheesecake Factory''" and theme=None
      and directive=None and st=st0 and ts=ts0 and dry_run=False, OF refl ne refl refl] grs
  have "o_success (fst (gather env_web_fails ts0 ''CAKE'' ''The Cheesecake Factory'' ''nova'' None None None False st0))"
    by blast
  with ev show ?thesis by blast
qed

text \<open>
  C6: the claim says the pacing delay follows every invocation except the last. The
  loop compares the source name with the last name of the list, not the position, so
  on the list web, fundamentals, web there is no delay after the first invocation:
  the trace has the delay only between fundamentals and the second web.
\<close>

theorem no_delay_after_repeated_last_source:
  "trace (snd (gather_sources env ticker company theme directive
                 (last [''web'', ''fundamentals'', ''web'']) [''web'', ''fundamentals'', ''web''] st)) =
     trace st @ [CallSource ''web'', CallSource ''fundamentals'', Sleep PACING, CallSource ''web'']"
  unfolding gather_sources_trace
  by (simp add: source_events_def SOURCE_REGISTRY_def)

text \<open>
  C8: for a source name that is not in the registry, the Source Runner returns a failed
  result whose error is "Unknown source: " followed by the name, with empty markdown
  and metric count 0, and leaves the outside world and the trace as they were: no
  external call is made.
\<close>

theorem unknown_source_fails_without_call:
  assumes "source \<notin> fst ` set SOURCE_REGISTRY"
  shows "run_source env source ticker company theme directive st =
     (\<lparr>gr_source = source, gr_success = False, gr_markdown = [], gr_metric_count = 0,
       gr_error = Some (''Unknown source: '' @ source)\<rparr>, st)"
proof -
  have "map_of SOURCE_REGISTRY source = None"
    using assms by (simp add: map_of_eq_None_iff)
  then show ?thesis by (simp add: run_source_def failed_result_def)
qed

theorem unknown_source_fails_without_call_witness:
  "''nonexistent'' \<notin> fst ` set SOURCE_REGISTRY \<and>
   run_source env_web_fails ''nonexistent'' ''CAKE'' ''Cheesecake Factory'' None None st0 =
     (\<lparr>gr_source = ''nonexistent'', gr_success = False, gr_markdown = [], gr_metric_count = 0,
       gr_error = Some ''Unknown source: nonexistent''\<rparr>, st0)"
proof -
  have h: "''nonexistent'' \<notin> fst ` set SOURCE_REGISTRY"
    by (simp add: SOURCE_REGISTRY_def)
  from unknown_source_fails_without_call[where env=env_web_fails and ticker="''CAKE''"
      and company="''Cheesecake Factory''" and theme=None and directive=None and st=st0, OF h] h
  show ?thesis by simp
qed

text \<open>
  C9: when the resolved source list is empty, the orchestrator returns success false
  and the summary "No sources configured for agent '...'", which contains "No sources";
  it records no gather and no store result, and the state is unchanged: neither a
  source nor a sink is called.
\<close>

theorem empty_sources_short_circuit:
  assumes "resolve_sources agent sources_arg = []"
    and "res = gather env ts ticker company agent sources_arg theme directive dry_run st"
  shows "o_success (fst res) = False
     \<and> o_summary (fst res) = ''No sources configured for agent '' @ [CHR 0x27] @ agent @ [CHR 0x27]
     \<and> sublist ''No sources'' (o_summary (fst res))
     \<and> o_gather_results (fst res) = [] \<and> o_store_results (fst res) = []
     \<and> snd res = st"
proof -
  have r: "res = (no_sources_result ticker company agent ts, st)"
    using assms by (simp add: gather_def)
  have p: "prefix ''No sources'' (o_summary (no_sources_result ticker company agent ts))"
    by (simp add: no_sources_result_def)
  show ?thesis
    unfolding r using prefix_imp_sublist[OF p] by (simp add: no_sources_result_def)
qed

theorem empty_sources_short_circuit_witness:
  "resolve_sources ''max'' None = []
   \<and> o_success (fst (gather env_web_fails ts0 ''CAKE'' ''The Cheesecake Factory'' ''max'' None None None False st0)) = False
   \<and> o_summary (fst (gather env_web_fails ts0 ''CAKE'' ''The Cheesecake Factory'' ''max'' None None None False st0))
       = ''No sources configured for agent '' @ [CHR 0x27] @ ''max'' @ [CHR 0x27]
   \<and> snd (gather env_web_fails ts0 ''CAKE'' ''The Cheesecake Factory'' ''max'' None None None False st0) = st0"
proof -
  have h: "resolve_sources ''max'' None = []"
    by (simp add: resolve_sources_def AGENT_SOURCES_def)
  from empty_sources_short_circuit[where env=env_web_fails and ts=ts0 and ticker="''CAKE''"
      and company="''The Cheesecake Factory''" and theme=None and directive=None
      and dry_run=False and st=st0, OF h refl] h
  show ?thesis by simp
qed

text \<open>
  C5, as the claim states it: the reindex sink would be invoked exactly when a Store
  Result succeeded. In a dry run of agent ace the Store Result for technicals
  succeeds (it is the simulated placeholder) and the reindex sink is not called. In a
  run that is not a dry run, where the upload succeeds and
  \<^verbatim>\<open>from store import trigger_kb_reindex\<close> raises \<^verbatim>\<open>ImportError\<close>, the Store Result
  succeeds and the reindex sink is not called either.
\<close>

theorem reindex_iff_stored_counterexample:
  "\<not> ((True \<in> set (map st_success (o_store_results (fst
          (gather env_web_fails ts0 ''CAKE'' ''The Cheesecake Factory'' ''ace'' None None None True st0)))))
       = (CallReindex \<in> set (trace (snd
          (gather env_web_fails ts0 ''CAKE'' ''The Cheesecake Factory'' ''ace'' None None None True st0)))))
   \<and> \<not> ((True \<in> set (map st_success (o_store_results (fst
          (gather env_reindex_missing ts0 ''CAKE'' ''The Cheesecake Factory'' ''ace'' None None None False st0)))))
       = (CallReindex \<in> set (trace (snd
          (gather env_reindex_missing ts0 ''CAKE'' ''The Cheesecake Factory'' ''ace'' None None None False st0)))))"
  by (simp add: gather_eval env_reindex_missing_def Let_def)

text \<open>
  C5, amended: in an invocation with a non-empty source list, the reindex sink is
  called exactly once when some Store Result succeeded, the run is not a dry run and
  the sink function can be imported, and it is not called at all otherwise, however
  many sources stored successfully. In a dry run neither sink is contacted, and a
  simulated reindex result is recorded when a Store Result succeeded. When a Store
  Result succeeded in a run that is not a dry run and the import of the sink function
  fails, the recorded result is the failed "store.py not available" one. When no gather
  result succeeded with non-empty content, no Store Result succeeds, and whenever no
  Store Result succeeded the recorded reindex result is the synthesized
  "No data stored" one.
\<close>

theorem reindex_once_iff_stored_and_live:
  assumes "sources = resolve_sources agent sources_arg" and "sources \<noteq> []"
    and "grs = fst (gather_sources env ticker company theme directive (last sources) sources st)"
    and "res = gather env ts ticker company agent sources_arg theme directive dry_run st"
    and "stored = (\<exists>r\<in>set (o_store_results (fst res)). st_success r)"
  shows "\<exists>evs. trace (snd res) = trace st @ evs
     \<and> count_list evs CallReindex =
          (if stored \<and> \<not> dry_run \<and> trigger_kb_reindex env \<noteq> None then 1 else 0)
     \<and> (dry_run \<longrightarrow> CallReindex \<notin> set evs \<and> (\<forall>s. CallStore s \<notin> set evs))
     \<and> ((\<forall>gr\<in>set grs. \<not> (gr_success gr \<and> gr_markdown gr \<noteq> [])) \<longrightarrow> \<not> stored)
     \<and> (\<not> stored \<longrightarrow> o_reindex (fst res) =
           \<lparr>rx_success = False, rx_message = ''No data stored '' @ em_dash @ '' skipping reindex''\<rparr>)
     \<and> (stored \<and> dry_run \<longrightarrow> o_reindex (fst res) =
           \<lparr>rx_success = True, rx_message = ''[DRY RUN] Would trigger KB reindex''\<rparr>)
     \<and> (stored \<and> \<not> dry_run \<and> trigger_kb_reindex env = None \<longrightarrow> o_reindex (fst res) =
           \<lparr>rx_success = False,
            rx_message = ''store.py not available '' @ em_dash @ '' cannot trigger reindex''\<rparr>)"
proof -
  obtain st1 where g: "gather_sources env ticker company theme directive (last sources) sources st = (grs, st1)"
    using assms(3) by (cases "gather_sources env ticker company theme directive (last sources) sources st") simp
  obtain srs a st2 where s: "store_results env ticker ts dry_run grs False st1 = (srs, a, st2)"
    by (cases "store_results env ticker ts dry_run grs False st1") auto
  note r = assms(1)[symmetric]
  note ge = gather_nonempty[OF r assms(2) g s]
  have a: "a = (\<exists>sr\<in>set srs. sr_success sr)"
    using store_results_any[OF s] by simp
  have st: "stored = a"
    unfolding assms(5) assms(4) ge a by (simp add: stored_reports_iff)
  let ?e1 = "concat (map (source_events (last sources)) sources)"
  let ?e2 = "if dry_run then [] else map (\<lambda>gr. CallStore (gr_source gr)) (filter storable grs)"
  let ?e3 = "if a \<and> \<not> dry_run \<and> trigger_kb_reindex env \<noteq> None then [CallReindex] else []"
  have t: "trace (snd res) = trace st @ (?e1 @ ?e2 @ ?e3)"
    unfolding assms(4) using gather_trace[OF r assms(2) g s] by simp
  have c1: "count_list (?e1 @ ?e2 @ ?e3) CallReindex =
      (if stored \<and> \<not> dry_run \<and> trigger_kb_reindex env \<noteq> None then 1 else 0)"
    unfolding st by (simp add: count_source_events count_store_events)
  have c2: "dry_run \<longrightarrow> CallReindex \<notin> set (?e1 @ ?e2 @ ?e3) \<and> (\<forall>s. CallStore s \<notin> set (?e1 @ ?e2 @ ?e3))"
    using source_events_no_sink[of _ "last sources" sources] by simp
  have c3: "(\<forall>gr\<in>set grs. \<not> (gr_success gr \<and> gr_markdown gr \<noteq> [])) \<longrightarrow> \<not> stored"
  proof
    assume "\<forall>gr\<in>set grs. \<not> (gr_success gr \<and> gr_markdown gr \<noteq> [])"
    then have "\<forall>gr\<in>set grs. \<not> storable gr" by (simp add: storable_def)
    from store_results_none_storable[OF s this] show "\<not> stored" unfolding st a by simp
  qed
  have rx: "o_reindex (fst res) = fst (reindex_step env dry_run a st2)"
    unfolding assms(4) ge by simp
  have c4: "\<not> stored \<longrightarrow> o_reindex (fst res) =
           \<lparr>rx_success = False, rx_message = ''No data stored '' @ em_dash @ '' skipping reindex''\<rparr>"
    unfolding rx st by (simp add: reindex_step_result)
  have c5: "stored \<and> dry_run \<longrightarrow> o_reindex (fst res) =
           \<lparr>rx_success = True, rx_message = ''[DRY RUN] Would trigger KB reindex''\<rparr>"
    unfolding rx st by (simp add: reindex_step_result)
  have c6: "stored \<and> \<not> dry_run \<and> trigger_kb_reindex env = None \<longrightarrow> o_reindex (fst res) =
           \<lparr>rx_success = False,
            rx_message = ''store.py not available '' @ em_dash @ '' cannot trigger reindex''\<rparr>"
    unfolding rx st by (simp add: reindex_step_result trigger_reindex_def)
  from t c1 c2 c3 c4 c5 c6 show ?thesis by blast
qed

theorem reindex_once_iff_stored_and_live_witness:
  "trace (snd (gather env_web_fails ts0 ''CAKE'' ''The Cheesecake Factory'' ''nova'' None None None False st0))
      = [CallSource ''web'', Sleep PACING, CallSource ''fundamentals'', CallStore ''fundamentals'', CallReindex]
   \<and> count_list (trace (snd (gather env_web_fails ts0 ''CAKE'' ''The Cheesecake Factory'' ''nova'' None None None False st0))) CallReindex = 1
   \<and> trace (snd (gather env_web_fails ts0 ''CAKE'' ''The Cheesecake Factory'' ''nova'' None None None True st0))
      = [CallSource ''web'', Sleep PACING, CallSource ''fundamentals'']
   \<and> o_reindex (fst (gather env_web_fails ts0 ''CAKE'' ''The Cheesecake Factory'' ''nova'' None None None True st0))
      = \<lparr>rx_success = True, rx_message = ''[DRY RUN] Would trigger KB reindex''\<rparr>
   \<and> o_reindex (fst (gather env_all_fail ts0 ''CAKE'' ''The Cheesecake Factory'' ''nova'' None None None False st0))
      = \<lparr>rx_success = False, rx_message = ''No data stored '' @ em_dash @ '' skipping reindex''\<rparr>
   \<and> count_list (trace (snd (gather env_all_fail ts0 ''CAKE'' ''The Cheesecake Factory'' ''nova'' None None None False st0))) CallReindex = 0
   \<and> o_reindex (fst (gather env_reindex_missing ts0 ''CAKE'' ''The Cheesecake Factory'' ''nova'' None None None False st0))
      = \<lparr>rx_success = False,
         rx_message = ''store.py not available '' @ em_dash @ '' cannot trigger reindex''\<rparr>
   \<and> count_list (trace (snd (gather env_reindex_missing ts0 ''CAKE'' ''The Cheesecake Factory'' ''nova'' None None None False st0))) CallReindex = 0"
proof -
  have ne: "resolve_sources ''nova'' None \<noteq> []"
    by (simp add: resolve_sources_def AGENT_SOURCES_def)
  have live: "trace (snd (gather env_web_fails ts0 ''CAKE'' ''The Cheesecake Factory'' ''nova'' None None None False st0))
      = [CallSource ''web'', Sleep PACING, CallSource ''fundamentals'', CallStore ''fundamentals'', CallReindex]"
    by (simp add: gather_eval Let_def)
  have dry: "trace (snd (gather env_web_fails ts0 ''CAKE'' ''The Cheesecake Factory'' ''nova'' None None None True st0))
      = [CallSource ''web'', Sleep PACING, CallSource ''fundamentals'']"
    by (simp add: gather_eval Let_def)
  have stored_live: "\<exists>r\<in>set (o_store_results (fst (gather env_web_fails ts0 ''CAKE'' ''The Cheesecake Factory'' ''nova'' None None None False st0))). st_success r"
    by (simp add: gather_eval Let_def)
  have stored_dry: "\<exists>r\<in>set (o_store_results (fst (gather env_web_fails ts0 ''CAKE'' ''The Cheesecake Factory'' ''nova'' None None None True st0))). st_success r"
    by (simp add: gather_eval Let_def)
  have none_stored: "\<not> (\<exists>r\<in>set (o_store_results (fst (gather env_all_fail ts0 ''CAKE'' ''The Cheesecake Factory'' ''nova'' None None None False st0))). st_success r)"
    by (simp add: gather_eval env_all_fail_def Let_def)
  have stored_missing: "\<exists>r\<in>set (o_store_results (fst (gather env_reindex_missing ts0 ''CAKE'' ''The Cheesecake Factory'' ''nova'' None None None False st0))). st_success r"
    by (simp add: gather_eval env_reindex_missing_def Let_def)
  have imp_ok: "trigger_kb_reindex env_web_fails \<noteq> None"
    by (simp add: env_web_fails_def)
  have imp_missing: "trigger_kb_reindex env_reindex_missing = None"
    by (simp add: env_reindex_missing_def)
  have t0: "trace st0 = []" by (simp add: st0_def)
  note th = reindex_once_iff_stored_and_live[where agent="''nova''" and sources_arg=None
      and ticker="''CAKE''" and company="''The Cheesecake Factory''" and theme=None
      and directive=None and st=st0 and ts=ts0, OF refl ne refl refl refl]
  from th[where env=env_web_fails and dry_run=False] stored_live imp_ok
  have w1: "count_list (trace (snd (gather env_web_fails ts0 ''CAKE'' ''The Cheesecake Factory'' ''nova'' None None None False st0))) CallReindex = 1"
    by (auto simp: t0)
  from th[where env=env_web_fails and dry_run=True] stored_dry
  have w2: "o_reindex (fst (gather env_web_fails ts0 ''CAKE'' ''The Cheesecake Factory'' ''nova'' None None None True st0))
      = \<lparr>rx_success = True, rx_message = ''[DRY RUN] Would trigger KB reindex''\<rparr>"
    by blast
  from th[where env=env_all_fail and dry_run=False] none_stored
  have w3: "o_reindex (fst (gather env_all_fail ts0 ''CAKE'' ''The Cheesecake Factory'' ''nova'' None None None False st0))
      = \<lparr>rx_success = False, rx_message = ''No data stored '' @ em_dash @ '' skipping reindex''\<rparr>
   \<and> count_list (trace (snd (gather env_all_fail ts0 ''CAKE'' ''The Cheesecake Factory'' ''nova'' None None None False st0))) CallReindex = 0"
    by (auto simp: t0)
  from th[where env=env_reindex_missing and dry_run=False] stored_missing imp_missing
  have w4: "o_reindex (fst (gather env_reindex_missing ts0 ''CAKE'' ''The Cheesecake Factory'' ''nova'' None None None False st0))
      = \<lparr>rx_success = False,
         rx_message = ''store.py not available '' @ em_dash @ '' cannot trigger reindex''\<rparr>
   \<and> count_list (trace (snd (gather env_reindex_missing ts0 ''CAKE'' ''The Cheesecake Factory'' ''nova'' None None None False st0))) CallReindex = 0"
    by (auto simp: t0)
  from live dry w1 w2 w3 w4 show ?thesis by blast
qed

end
